theory Spec2Isabelle
  imports Complex_Main
begin

section \<open>Age/Date component (utils/age.ts)\<close>

text \<open>
  A JavaScript \<open>Date\<close> that holds a valid instant is modelled by the local calendar
  fields its getters return: \<open>getFullYear\<close>, \<open>getMonth\<close> (0 = January, 11 = December),
  \<open>getDate\<close> (day of the month, 1 to 31), and the milliseconds elapsed since local
  midnight. An invalid date (whose \<open>getTime()\<close> is NaN) is \<open>None\<close>.
\<close>

record Date =
  getFullYear :: int
  getMonth :: int
  getDate :: int
  msOfDay :: nat

definition valid_Date :: "Date \<Rightarrow> bool" where
  "valid_Date d \<longleftrightarrow> 0 \<le> getMonth d \<and> getMonth d \<le> 11 \<and> 1 \<le> getDate d \<and> getDate d \<le> 31"

text \<open>
  What every \<open>Date\<close> constructor guarantees of the dates it accepts: the fields of a
  valid date are in range.
\<close>

definition constructs_valid :: "(string \<Rightarrow> Date option) \<Rightarrow> bool" where
  "constructs_valid newDate \<longleftrightarrow> (\<forall>s d. newDate s = Some d \<longrightarrow> valid_Date d)"

text \<open>Order of two instants, read off their calendar fields.\<close>

definition precedes :: "Date \<Rightarrow> Date \<Rightarrow> bool" where
  "precedes a b \<longleftrightarrow>
     getFullYear a < getFullYear b \<or>
     (getFullYear a = getFullYear b \<and>
       (getMonth a < getMonth b \<or>
        (getMonth a = getMonth b \<and>
          (getDate a < getDate b \<or>
           (getDate a = getDate b \<and> msOfDay a < msOfDay b)))))"

definition on_or_after :: "Date \<Rightarrow> Date \<Rightarrow> bool" where
  "on_or_after a b \<longleftrightarrow> \<not> precedes a b"

record AgeResult =
  years :: int
  months :: int

text \<open>
  \<open>safeDate\<close>: an absent or empty string gives \<open>null\<close>; otherwise the string goes to
  the runtime's \<open>Date\<close> constructor, here the parameter \<open>newDate\<close>, and an invalid
  date gives \<open>null\<close>.
\<close>

definition safeDate :: "(string \<Rightarrow> Date option) \<Rightarrow> string option \<Rightarrow> Date option" where
  "safeDate newDate v =
     (case v of
        None \<Rightarrow> None
      | Some s \<Rightarrow> if s = [] then None else newDate s)"

text \<open>
  \<open>calculateAge\<close>. The two fallbacks \<open>new Date()\<close> are two readings of the clock,
  \<open>now1\<close> for the birth side and \<open>now2\<close> for the reference side. The three
  \<open>if\<close> statements of the source follow one another on the mutable pair
  (\<open>years\<close>, \<open>months\<close>).
\<close>

definition ageBetween :: "Date \<Rightarrow> Date \<Rightarrow> AgeResult" where
  "ageBetween birth reference =
     (let months0 = getMonth reference - getMonth birth;
          years0 = getFullYear reference - getFullYear birth;
          months1 = (if getDate reference < getDate birth then months0 - 1 else months0);
          years2 = (if months1 < 0 then years0 - 1 else years0);
          months2 = (if months1 < 0 then months1 + 12 else months1);
          years3 = (if years2 < 0 then 0 else years2);
          months3 = (if years2 < 0 then 0 else months2)
      in \<lparr>years = years3, months = months3\<rparr>)"

definition calculateAge ::
    "(string \<Rightarrow> Date option) \<Rightarrow> Date \<Rightarrow> Date \<Rightarrow> string option \<Rightarrow> string option \<Rightarrow> AgeResult" where
  "calculateAge newDate now1 now2 birthDate referenceDate =
     (let birth = (case safeDate newDate birthDate of Some d \<Rightarrow> d | None \<Rightarrow> now1);
          reference = (case safeDate newDate referenceDate of Some d \<Rightarrow> d | None \<Rightarrow> now2)
      in ageBetween birth reference)"

subsection \<open>The date strings of the intake form\<close>

text \<open>
  The form's date inputs produce date-only strings \<open>YYYY-MM-DD\<close>. \<open>isoDate\<close> is the
  \<open>Date\<close> constructor on such strings of a real calendar day, read in a time zone
  where the day of the instant is the day written (local time = UTC); every other
  string is treated as unparseable.
\<close>

definition is_digit :: "char \<Rightarrow> bool" where
  "is_digit c \<longleftrightarrow> 48 \<le> (of_char c :: nat) \<and> (of_char c :: nat) \<le> 57"

definition digit_val :: "char \<Rightarrow> int" where
  "digit_val c = int (of_char c) - 48"

definition leap_year :: "int \<Rightarrow> bool" where
  "leap_year y \<longleftrightarrow> (y mod 4 = 0 \<and> y mod 100 \<noteq> 0) \<or> y mod 400 = 0"

definition days_in_month :: "int \<Rightarrow> int \<Rightarrow> int" where
  "days_in_month y m =
     (if m = 2 then (if leap_year y then 29 else 28)
      else if m = 4 \<or> m = 6 \<or> m = 9 \<or> m = 11 then 30
      else 31)"

definition isoFields :: "int \<Rightarrow> int \<Rightarrow> int \<Rightarrow> Date option" where
  "isoFields y m d =
     (if 1 \<le> m \<and> m \<le> 12 \<and> 1 \<le> d \<and> d \<le> days_in_month y m
      then Some \<lparr>getFullYear = y, getMonth = m - 1, getDate = d, msOfDay = 0\<rparr>
      else None)"

fun isoDate :: "string \<Rightarrow> Date option" where
  "isoDate [y1, y2, y3, y4, s1, m1, m2, s2, d1, d2] =
     (if s1 = CHR ''-'' \<and> s2 = CHR ''-'' \<and> list_all is_digit [y1, y2, y3, y4, m1, m2, d1, d2]
      then isoFields (1000 * digit_val y1 + 100 * digit_val y2 + 10 * digit_val y3 + digit_val y4)
                     (10 * digit_val m1 + digit_val m2)
                     (10 * digit_val d1 + digit_val d2)
      else None)"
| "isoDate _ = None"

text \<open>A fixed reading of the clock, for evaluating the functions on concrete inputs.\<close>

definition epoch :: Date where
  "epoch = \<lparr>getFullYear = 1970, getMonth = 0, getDate = 1, msOfDay = 0\<rparr>"

section \<open>Growth projection component (components/AnalysisResults.tsx)\<close>

text \<open>
  Numbers are modelled as reals; NaN and the infinities are outside the model.
  \<open>Math.round\<close> yields an integer. The predicted height is computed as the source
  computes it, every operation rounded to the nearest double (\<open>fl\<close> below); the
  other derived values are computed exactly.
\<close>

datatype PatientSex = Male | Female

record PatientInfo =
  patient_name :: "string option"
  sex :: PatientSex
  birthDate :: string
  heightCm :: real
  weightKg :: real
  examDate :: string

datatype Severity = Low | Medium | High

record BoundingBox =
  box_x :: real
  box_y :: real
  box_width :: real
  box_height :: real
  box_label :: "string option"

record AnalysisResult =
  result_id :: string
  finding :: string
  probability :: real
  severity :: Severity
  boundingBoxes :: "BoundingBox list"
  analysisDate :: string
  modality :: string
  patientId :: string
  summary :: "string option"

record HeightRange =
  range_min :: int
  range_max :: int



text \<open>
  \<open>Math.round\<close>: the nearest integer, a fractional part of exactly one half going to
  the next integer towards plus infinity.
\<close>

definition Math_round :: "real \<Rightarrow> int" where
  "Math_round v = (if frac v < 1 / 2 then \<lfloor>v\<rfloor> else \<lfloor>v\<rfloor> + 1)"

text \<open>\<open>v || d\<close> on numbers: zero is falsy, every other real is truthy.\<close>

definition or_default :: "real \<Rightarrow> real \<Rightarrow> real" where
  "or_default v d = (if v = 0 then d else v)"

text \<open>
  Rounding to the nearest IEEE binary64 number. \<open>binade x\<close> is the power of two
  with \<open>binade x \<le> x < 2 * binade x\<close> (for positive \<open>x\<close>); the spacing of the
  doubles around \<open>x\<close> is \<open>ulp x\<close>, that of the subnormal numbers below
  \<open>2 ^ -1022\<close>; \<open>fl x\<close> is the multiple of \<open>ulp x\<close> nearest to \<open>x\<close>, a tie
  going to the even multiple. Overflow to infinity is outside the model.
\<close>

definition round_even :: "real \<Rightarrow> int" where
  "round_even y =
     (let f = \<lfloor>y\<rfloor>; d = y - of_int f
      in if d < 1 / 2 then f else if 1 / 2 < d then f + 1 else if even f then f else f + 1)"

function binade :: "real \<Rightarrow> real" where
  "binade x =
     (if x \<le> 0 then 1
      else if 2 \<le> x then 2 * binade (x / 2)
      else if x < 1 then binade (x * 2) / 2
      else 1)"
  by pat_completeness auto
termination
proof (relation "measure (\<lambda>x. nat \<bar>\<lfloor>log 2 x\<rfloor>\<bar>)")
  show "wf (measure (\<lambda>x. nat \<bar>\<lfloor>log 2 x\<rfloor>\<bar>))"
    by simp
next
  fix x :: real
  assume "\<not> x \<le> 0" and "2 \<le> x"
  then have "1 \<le> log 2 x"
    by (simp add: le_log_iff)
  then have "1 \<le> \<lfloor>log 2 x\<rfloor>"
    by (simp add: le_floor_iff)
  moreover have "\<lfloor>log 2 (x / 2)\<rfloor> = \<lfloor>log 2 x\<rfloor> - 1"
    using \<open>2 \<le> x\<close> by (simp add: log_divide)
  ultimately show "(x / 2, x) \<in> measure (\<lambda>x. nat \<bar>\<lfloor>log 2 x\<rfloor>\<bar>)"
    by simp
next
  fix x :: real
  assume pos: "\<not> x \<le> 0" and "\<not> 2 \<le> x" and "x < 1"
  then have "log 2 x < 0"
    by simp
  then have "\<lfloor>log 2 x\<rfloor> \<le> - 1"
    by (simp add: floor_le_iff)
  moreover have "\<lfloor>log 2 (x * 2)\<rfloor> = \<lfloor>log 2 x\<rfloor> + 1"
    using pos by (simp add: log_mult)
  ultimately show "(x * 2, x) \<in> measure (\<lambda>x. nat \<bar>\<lfloor>log 2 x\<rfloor>\<bar>)"
    by simp
qed

declare binade.simps [simp del]

definition ulp :: "real \<Rightarrow> real" where
  "ulp x = max (binade \<bar>x\<bar>) (1 / 2 ^ 1022) / 2 ^ 52"

definition fl :: "real \<Rightarrow> real" where
  "fl x = of_int (round_even (x / ulp x)) * ulp x"

text \<open>
  \<open>predictedHeight\<close>: \<open>(result.probability - 0.5) * 12\<close> and
  \<open>base + 10 + delta\<close>, each of the four operations rounded.
\<close>

definition predictedHeight :: "PatientInfo \<Rightarrow> AnalysisResult \<Rightarrow> int" where
  "predictedHeight patientInfo result =
     (let base = or_default (heightCm patientInfo) 140;
          delta = fl (fl (probability result - 0.5) * 12)
      in Math_round (fl (fl (base + 10) + delta)))"

definition predictedRange :: "PatientInfo \<Rightarrow> AnalysisResult \<Rightarrow> HeightRange" where
  "predictedRange patientInfo result =
     \<lparr>range_min = max 120 (predictedHeight patientInfo result - 4),
      range_max = predictedHeight patientInfo result + 3\<rparr>"







text \<open>
  A patient 118.7 cm tall and a result of probability 0.15, each number the double
  nearest to its decimal.
\<close>

definition short_patient :: PatientInfo where
  "short_patient =
     \<lparr>patient_name = None, sex = Female, birthDate = ''2016-03-01'', heightCm = fl (1187 / 10),
      weightKg = 22, examDate = ''2024-06-10''\<rparr>"

definition low_result :: AnalysisResult where
  "low_result =
     \<lparr>result_id = ''r-2'', finding = ''finding'', probability = fl (3 / 20), severity = Low,
      boundingBoxes = [], analysisDate = ''2024-06-10T00:00:00.000Z'', modality = ''X-RAY/IMG'',
      patientId = ''ANON-1235'', summary = None\<rparr>"


section \<open>Inference gateway (netlify/functions/analyze.js)\<close>

text \<open>
  A JavaScript string is the list of its UTF-16 code units; \<open>str\<close> is the string of
  an ASCII literal.
\<close>

type_synonym ustring = "nat list"

definition str :: "string \<Rightarrow> ustring" where
  "str s = map of_char s"

text \<open>
  A JSON value as \<open>JSON.parse\<close> returns it. An object keeps its own members as an
  association list read by \<open>map_of\<close>.
\<close>

datatype json =
    JNull
  | JBool bool
  | JNum real
  | JStr ustring
  | JArr "json list"
  | JObj "(ustring \<times> json) list"

text \<open>
  Reading a property with optional chaining (\<open>v?.k\<close>): \<open>None\<close> is \<open>undefined\<close>.
  The keys the gateway reads are on no prototype, so only an object that has the key as
  its own member answers. On \<open>null\<close> a plain \<open>v.k\<close> throws instead, which
  \<open>analysisResponse\<close> below checks first.
\<close>

fun getProp :: "json \<Rightarrow> ustring \<Rightarrow> json option" where
  "getProp (JObj kvs) k = map_of kvs k"
| "getProp _ k = None"

text \<open>
  \<open>String.prototype.trim\<close> strips the code units of \<open>WhiteSpace\<close> and
  \<open>LineTerminator\<close>: TAB, LF, VT, FF, CR, SP, NBSP, U+1680, U+2000 to U+200A, U+2028,
  U+2029, U+202F, U+205F, U+3000 and U+FEFF.
\<close>

definition is_space :: "nat \<Rightarrow> bool" where
  "is_space c \<longleftrightarrow>
     c \<in> {9, 10, 11, 12, 13, 32, 160, 5760, 8232, 8233, 8239, 8287, 12288, 65279}
     \<or> (8192 \<le> c \<and> c \<le> 8202)"

definition trim :: "ustring \<Rightarrow> ustring" where
  "trim s = rev (dropWhile is_space (rev (dropWhile is_space s)))"

definition startsWith :: "ustring \<Rightarrow> ustring \<Rightarrow> bool" where
  "startsWith s p \<longleftrightarrow> take (length p) s = p"

text \<open>
  \<open>extractOutputText\<close>: the \<open>output_text\<close> string if there is one, otherwise the
  first non-blank \<open>text\<close> of the first \<open>content\<close> array that has one, otherwise
  the empty string. \<open>firstText\<close> is the inner loop, \<open>scanOutput\<close> the outer one.
\<close>

fun firstText :: "json list \<Rightarrow> ustring option" where
  "firstText [] = None"
| "firstText (part # parts) =
     (case getProp part (str ''text'') of
        Some (JStr t) \<Rightarrow> if trim t \<noteq> [] then Some t else firstText parts
      | _ \<Rightarrow> firstText parts)"

fun scanOutput :: "json list \<Rightarrow> ustring" where
  "scanOutput [] = []"
| "scanOutput (item # items) =
     (case getProp item (str ''content'') of
        Some (JArr content) \<Rightarrow>
          (case firstText content of Some t \<Rightarrow> t | None \<Rightarrow> scanOutput items)
      | _ \<Rightarrow> scanOutput items)"

definition extractOutputText :: "json \<Rightarrow> ustring" where
  "extractOutputText payload =
     (case getProp payload (str ''output_text'') of
        Some (JStr s) \<Rightarrow> s
      | _ \<Rightarrow> (case getProp payload (str ''output'') of
                Some (JArr output) \<Rightarrow> scanOutput output
              | _ \<Rightarrow> []))"

text \<open>\<open>String(n)\<close> of a natural number: its decimal digits.\<close>

fun show_nat :: "nat \<Rightarrow> ustring" where
  "show_nat n = (if n < 10 then [48 + n] else show_nat (n div 10) @ [48 + n mod 10])"

declare show_nat.simps [simp del]

text \<open>
  \<open>String(v)\<close> of a JSON value; \<open>None\<close> is a thrown TypeError. The text of a number
  is the runtime's (the parameter \<open>num\<close>). An array is joined with commas, a
  \<open>null\<close> element giving the empty text. An object without an own \<open>toString\<close>
  member is printed by \<open>Object.prototype.toString\<close>; with one, which is never
  callable, neither \<open>toString\<close> nor \<open>valueOf\<close> yields a primitive and the conversion
  throws.
\<close>

fun js_String :: "(real \<Rightarrow> ustring) \<Rightarrow> json \<Rightarrow> ustring option"
  and js_join :: "(real \<Rightarrow> ustring) \<Rightarrow> json list \<Rightarrow> ustring option" where
  "js_String num JNull = Some (str ''null'')"
| "js_String num (JBool b) = Some (if b then str ''true'' else str ''false'')"
| "js_String num (JNum v) = Some (num v)"
| "js_String num (JStr s) = Some s"
| "js_String num (JArr xs) = js_join num xs"
| "js_String num (JObj kvs) =
     (if map_of kvs (str ''toString'') = None then Some (str ''[object Object]'') else None)"
| "js_join num [] = Some []"
| "js_join num [x] = (if x = JNull then Some [] else js_String num x)"
| "js_join num (x # y # ys) =
     (case (if x = JNull then Some [] else js_String num x) of
        None \<Rightarrow> None
      | Some s \<Rightarrow>
          (case js_join num (y # ys) of
             None \<Rightarrow> None
           | Some t \<Rightarrow> Some (s @ str '','' @ t)))"

text \<open>
  The handler's surroundings: the event, the environment variables, the outcome of
  \<open>fetch\<close> (a rejected promise, or a response whose \<open>json()\<close> is \<open>null\<close> when it
  cannot be read), and the runtime's functions and readings (\<open>JSON.parse\<close>, which is
  \<open>None\<close> when it throws, the text of a number, \<open>randomUUID()\<close>,
  \<open>new Date().toISOString()\<close>, \<open>Math.random()\<close>).
\<close>

record Event =
  httpMethod :: ustring
  event_body :: "ustring option"

record Env =
  OPENAI_API_KEY :: "ustring option"
  OPENAI_MODEL :: "ustring option"

record FetchResponse =
  ok :: bool
  status :: nat
  statusText :: ustring
  payload :: json

datatype FetchOutcome = Rejected ustring | Resolved FetchResponse

record Runtime =
  JSON_parse :: "ustring \<Rightarrow> json option"
  Number_toString :: "real \<Rightarrow> ustring"
  fetch :: "ustring \<Rightarrow> ustring \<Rightarrow> ustring \<Rightarrow> FetchOutcome"
  randomUUID :: ustring
  toISOString :: ustring
  Math_random :: real

text \<open>
  The responses. A body is kept as the object handed to \<open>JSON.stringify\<close>; the Korean
  message texts are not spelled out. \<open>TypeError_null\<close> is the error of reading a
  property of \<open>null\<close>, \<open>TypeError_String\<close> the error of a \<open>String(v)\<close> that
  finds no primitive, \<open>Thrown\<close> the error of a rejected \<open>fetch\<close>.
\<close>

record Analysis =
  out_id :: ustring
  out_finding :: ustring
  out_probability :: real
  out_severity :: ustring
  out_boundingBoxes :: "json list"
  out_analysisDate :: ustring
  out_modality :: ustring
  out_patientId :: ustring

datatype Failure = TypeError_null | TypeError_String | Thrown ustring

datatype Body =
    NoBody
  | ErrorBody ustring
  | MissingKeyBody
  | UpstreamErrorBody nat json json bool
  | ParseErrorBody ustring
  | AnalyzeFailedBody Failure
  | AnalysisBody Analysis

record Response =
  statusCode :: nat
  headers :: "(ustring \<times> ustring) list"
  response_body :: Body

definition json :: "nat \<Rightarrow> Body \<Rightarrow> Response" where
  "json code b =
     \<lparr>statusCode = code,
      headers = [(str ''Content-Type'', str ''application/json; charset=utf-8'')],
      response_body = b\<rparr>"

text \<open>\<open>process.env.X?.trim()\<close> followed by a truthiness test.\<close>

definition envTrimmed :: "ustring option \<Rightarrow> ustring option" where
  "envTrimmed v = (case v of None \<Rightarrow> None | Some s \<Rightarrow> if trim s = [] then None else Some (trim s))"

text \<open>The answer to an upstream response that is not \<open>ok\<close>.\<close>

definition upstreamError :: "FetchResponse \<Rightarrow> Response" where
  "upstreamError res =
     (let openaiPayload = payload res;
          payloadError = (case getProp openaiPayload (str ''error'') of Some e \<Rightarrow> e | None \<Rightarrow> JNull);
          st = (if status res = 0 then 502 else status res);
          message = (case getProp payloadError (str ''message'') of
                       None \<Rightarrow> JStr (statusText res)
                     | Some JNull \<Rightarrow> JStr (statusText res)
                     | Some m \<Rightarrow> m)
      in json st (UpstreamErrorBody st message openaiPayload
           (status res = 401 \<or>
            getProp payloadError (str ''type'') = Some (JStr (str ''invalid_api_key'')) \<or>
            getProp payloadError (str ''code'') = Some (JStr (str ''invalid_api_key'')))))"

text \<open>
  \<open>String(parsed.finding ?? '')\<close>: the empty text for a missing or \<open>null\<close>
  finding, otherwise \<open>String\<close> of it, which may throw.
\<close>

definition findingText :: "Runtime \<Rightarrow> json \<Rightarrow> ustring option" where
  "findingText rt parsed =
     (case getProp parsed (str ''finding'') of
        None \<Rightarrow> Some []
      | Some JNull \<Rightarrow> Some []
      | Some v \<Rightarrow> js_String (Number_toString rt) v)"

text \<open>
  The response built from the parsed model output. \<open>parsed.probability\<close> on
  \<open>null\<close> throws a TypeError, and so may \<open>String\<close> of the finding; the handler's
  \<open>catch\<close> turns either into a 500.
\<close>

definition analysisResponse :: "Runtime \<Rightarrow> json \<Rightarrow> Response" where
  "analysisResponse rt parsed =
     (if parsed = JNull then json 500 (AnalyzeFailedBody TypeError_null)
      else
        let probability =
              (case getProp parsed (str ''probability'') of
                 Some (JNum v) \<Rightarrow> max 0 (min 1 v)
               | _ \<Rightarrow> 0)
        in (case findingText rt parsed of
              None \<Rightarrow> json 500 (AnalyzeFailedBody TypeError_String)
            | Some findingStr \<Rightarrow>
                json 200 (AnalysisBody
                  \<lparr>out_id = randomUUID rt,
                   out_finding = findingStr,
                   out_probability = probability,
                   out_severity =
                     (case getProp parsed (str ''severity'') of
                        Some (JStr s) \<Rightarrow>
                          if s = str ''High'' \<or> s = str ''Medium'' \<or> s = str ''Low''
                          then s else str ''Low''
                      | _ \<Rightarrow> str ''Low''),
                   out_boundingBoxes =
                     (case getProp parsed (str ''boundingBoxes'') of
                        Some (JArr boxes) \<Rightarrow> boxes
                      | _ \<Rightarrow> []),
                   out_analysisDate = toISOString rt,
                   out_modality = str ''X-RAY/IMG'',
                   out_patientId =
                     str ''ANON-'' @ show_nat (nat \<lfloor>Math_random rt * 9000\<rfloor> + 1000)\<rparr>)))"

text \<open>The \<open>try\<close> block of the handler: the upstream call and what follows it.\<close>

definition analyze :: "Runtime \<Rightarrow> ustring \<Rightarrow> ustring \<Rightarrow> ustring \<Rightarrow> Response" where
  "analyze rt apiKey resolvedModel imageDataUrl =
     (case fetch rt apiKey resolvedModel imageDataUrl of
        Rejected message \<Rightarrow> json 500 (AnalyzeFailedBody (Thrown message))
      | Resolved openaiRes \<Rightarrow>
          if \<not> ok openaiRes then upstreamError openaiRes
          else
            let text = extractOutputText (payload openaiRes)
            in (case JSON_parse rt text of
                  None \<Rightarrow> json 502 (ParseErrorBody text)
                | Some parsed \<Rightarrow> analysisResponse rt parsed))"

definition handler :: "Runtime \<Rightarrow> Env \<Rightarrow> Event \<Rightarrow> Response" where
  "handler rt env event =
     (if httpMethod event = str ''OPTIONS'' then
        \<lparr>statusCode = 204,
         headers = [(str ''Access-Control-Allow-Origin'', str ''*''),
                    (str ''Access-Control-Allow-Methods'', str ''POST, OPTIONS''),
                    (str ''Access-Control-Allow-Headers'', str ''Content-Type, Authorization'')],
         response_body = NoBody\<rparr>
      else if httpMethod event \<noteq> str ''POST'' then json 405 (ErrorBody (str ''Method Not Allowed''))
      else
        (case envTrimmed (OPENAI_API_KEY env) of
           None \<Rightarrow> json 500 MissingKeyBody
         | Some apiKey \<Rightarrow>
             (case JSON_parse rt
                     (case event_body event of
                        None \<Rightarrow> str ''{}''
                      | Some b \<Rightarrow> if b = [] then str ''{}'' else b) of
                None \<Rightarrow> json 400 (ErrorBody (str ''Invalid JSON body''))
              | Some body \<Rightarrow>
                  (case getProp body (str ''imageDataUrl'') of
                     Some (JStr imageDataUrl) \<Rightarrow>
                       if \<not> startsWith imageDataUrl (str ''data:image/'')
                       then json 400 (ErrorBody (str ''`imageDataUrl` is required (data URL)''))
                       else
                         let resolvedModel =
                               (case envTrimmed (OPENAI_MODEL env) of
                                  None \<Rightarrow> str ''gpt-4o-mini''
                                | Some m \<Rightarrow> m)
                         in analyze rt apiKey resolvedModel imageDataUrl
                   | _ \<Rightarrow> json 400 (ErrorBody (str ''`imageDataUrl` is required (data URL)''))))))"

text \<open>
  A concrete request and runtime, for evaluating the handler: the upstream answers with
  the given model text, and \<open>JSON.parse\<close> and the text of a number are tabulated
  on the texts and numbers used.
\<close>

definition example_request :: ustring where
  \<open>example_request = str ''{"imageDataUrl":"data:image/png;base64,AAAA","fileName":"hand.png"}''\<close>

definition example_output :: ustring where
  \<open>example_output = str ''{"finding":"x","probability":1.7,"severity":"Critical","boundingBoxes":[]}''\<close>

definition example_sparse_output :: ustring where
  \<open>example_sparse_output = str ''{"finding":"x","probability":"high","severity":"High"}''\<close>

definition example_unprintable_output :: ustring where
  \<open>example_unprintable_output = str ''{"finding":{"toString":1},"probability":0.5,"severity":"High"}''\<close>

definition example_parse :: "ustring \<Rightarrow> json option" where
  "example_parse s =
     (if s = example_request then
        Some (JObj [(str ''imageDataUrl'', JStr (str ''data:image/png;base64,AAAA'')),
                    (str ''fileName'', JStr (str ''hand.png''))])
      else if s = example_output then
        Some (JObj [(str ''finding'', JStr (str ''x'')), (str ''probability'', JNum (17 / 10)),
                    (str ''severity'', JStr (str ''Critical'')), (str ''boundingBoxes'', JArr [])])
      else if s = example_sparse_output then
        Some (JObj [(str ''finding'', JStr (str ''x'')), (str ''probability'', JStr (str ''high'')),
                    (str ''severity'', JStr (str ''High''))])
      else if s = example_unprintable_output then
        Some (JObj [(str ''finding'', JObj [(str ''toString'', JNum 1)]),
                    (str ''probability'', JNum (1 / 2)), (str ''severity'', JStr (str ''High''))])
      else None)"

definition example_number_text :: "real \<Rightarrow> ustring" where
  "example_number_text v =
     (if v = 17 / 10 then str ''1.7'' else if v = 1 / 2 then str ''0.5'' else show_nat (nat \<lfloor>v\<rfloor>))"

definition example_runtime :: "ustring \<Rightarrow> Runtime" where
  "example_runtime modelText =
     \<lparr>JSON_parse = example_parse,
      Number_toString = example_number_text,
      fetch = (\<lambda>apiKey model imageDataUrl.
        Resolved \<lparr>ok = True, status = 200, statusText = str ''OK'',
                  payload = JObj [(str ''output_text'', JStr modelText)]\<rparr>),
      randomUUID = str ''00000000-0000-4000-8000-000000000000'',
      toISOString = str ''2024-06-10T00:00:00.000Z'',
      Math_random = 1 / 2\<rparr>"

definition example_env :: Env where
  "example_env = \<lparr>OPENAI_API_KEY = Some (str ''sk-test''), OPENAI_MODEL = None\<rparr>"

definition example_event :: Event where
  "example_event = \<lparr>httpMethod = str ''POST'', event_body = Some example_request\<rparr>"

section \<open>Upload widget (components/FileUpload.tsx)\<close>

text \<open>
  A selected file by its name and its size in bytes. The two constants the component
  imports, \<open>MAX_FILE_SIZE_MB\<close> and the table \<open>SUPPORTED_FILE_TYPES\<close> (from a type to
  its extensions), are parameters. The component's state is its two \<open>useState\<close>
  cells and the calls of the \<open>onFileSelect\<close> callback made so far, in order. The two
  error messages, Korean texts, are the two values of \<open>UploadError\<close>.
\<close>

record File =
  file_name :: string
  file_size :: nat

datatype UploadError = FileTooLarge real | UnsupportedFileType

record UploadConstants =
  MAX_FILE_SIZE_MB :: real
  SUPPORTED_FILE_TYPES :: "(string \<times> string list) list"

record UploadState =
  isDragOver :: bool
  upload_error :: "UploadError option"
  onFileSelect_calls :: "File list"

text \<open>\<open>toLowerCase\<close> and \<open>endsWith\<close> on ASCII strings.\<close>

definition lower_char :: "char \<Rightarrow> char" where
  "lower_char c =
     (case map_of (zip ''ABCDEFGHIJKLMNOPQRSTUVWXYZ'' ''abcdefghijklmnopqrstuvwxyz'') c of
        Some l \<Rightarrow> l
      | None \<Rightarrow> c)"

definition toLowerCase :: "string \<Rightarrow> string" where
  "toLowerCase s = map lower_char s"

definition endsWith :: "string \<Rightarrow> string \<Rightarrow> bool" where
  "endsWith s ext \<longleftrightarrow> length ext \<le> length s \<and> drop (length s - length ext) s = ext"

text \<open>
  \<open>isValidType\<close>: some extension of
  \<open>Object.values(SUPPORTED_FILE_TYPES).flat()\<close> ends the lower-cased name.
\<close>

definition isValidType :: "UploadConstants \<Rightarrow> File \<Rightarrow> bool" where
  "isValidType c file =
     list_ex (\<lambda>ext. endsWith (toLowerCase (file_name file)) ext)
       (concat (map snd (SUPPORTED_FILE_TYPES c)))"

text \<open>
  \<open>validateFile\<close>: the size check first, then the type check; it returns the verdict
  and the state after \<open>setError\<close>.
\<close>

definition validateFile :: "UploadConstants \<Rightarrow> File \<Rightarrow> UploadState \<Rightarrow> bool \<times> UploadState" where
  "validateFile c file st =
     (if real (file_size file) > MAX_FILE_SIZE_MB c * 1024 * 1024
      then (False, st\<lparr>upload_error := Some (FileTooLarge (MAX_FILE_SIZE_MB c))\<rparr>)
      else if \<not> isValidType c file
      then (False, st\<lparr>upload_error := Some UnsupportedFileType\<rparr>)
      else (True, st\<lparr>upload_error := None\<rparr>))"

text \<open>
  What both handlers do once past their \<open>disabled\<close> check: take the first file, if
  there is one, validate it and call \<open>onFileSelect\<close> when the verdict is true.
\<close>

definition selectFirst :: "UploadConstants \<Rightarrow> File list \<Rightarrow> UploadState \<Rightarrow> UploadState" where
  "selectFirst c files st =
     (case files of
        [] \<Rightarrow> st
      | file # _ \<Rightarrow>
          (case validateFile c file st of
             (True, st') \<Rightarrow> st'\<lparr>onFileSelect_calls := onFileSelect_calls st' @ [file]\<rparr>
           | (False, st') \<Rightarrow> st'))"

definition handleDrop :: "UploadConstants \<Rightarrow> bool \<Rightarrow> File list \<Rightarrow> UploadState \<Rightarrow> UploadState" where
  "handleDrop c disabled files st =
     (let st1 = st\<lparr>isDragOver := False\<rparr>
      in if disabled then st1 else selectFirst c files st1)"

definition handleFileInput :: "UploadConstants \<Rightarrow> bool \<Rightarrow> File list \<Rightarrow> UploadState \<Rightarrow> UploadState" where
  "handleFileInput c disabled files st =
     (if disabled then st else selectFirst c files st)"

text \<open>Concrete constants, a state and three files, for evaluating the handlers.\<close>

definition example_constants :: UploadConstants where
  "example_constants =
     \<lparr>MAX_FILE_SIZE_MB = 10,
      SUPPORTED_FILE_TYPES = [(''image/jpeg'', [''.jpg'', ''.jpeg'']), (''image/png'', [''.png''])]\<rparr>"

definition example_state :: UploadState where
  "example_state = \<lparr>isDragOver = True, upload_error = Some UnsupportedFileType, onFileSelect_calls = []\<rparr>"

definition example_png :: File where
  "example_png = \<lparr>file_name = ''Hand.PNG'', file_size = 2048\<rparr>"

definition example_pdf :: File where
  "example_pdf = \<lparr>file_name = ''scan.pdf'', file_size = 2048\<rparr>"

definition example_oversized :: File where
  "example_oversized = \<lparr>file_name = ''hand.png'', file_size = 10485761\<rparr>"

section \<open>Properties of the age component\<close>

lemma ageBetween_years_nonneg: "0 \<le> years (ageBetween b r)"
  by (simp add: ageBetween_def Let_def)

lemma ageBetween_months_range:
  assumes "valid_Date b" and "valid_Date r"
  shows "0 \<le> months (ageBetween b r) \<and> months (ageBetween b r) \<le> 11"
  using assms by (auto simp: ageBetween_def Let_def valid_Date_def)

lemma ageBetween_not_after:
  assumes "\<not> precedes b r"
  shows "ageBetween b r = \<lparr>years = 0, months = 0\<rparr>"
  using assms by (auto simp: ageBetween_def Let_def precedes_def)

lemma days_in_month_le: "days_in_month y m \<le> 31"
  by (simp add: days_in_month_def)

lemma isoFields_valid: "isoFields y m d = Some dt \<Longrightarrow> valid_Date dt"
  using days_in_month_le [of y m]
  by (auto simp: isoFields_def valid_Date_def split: if_splits)

lemma isoDate_valid: "isoDate s = Some dt \<Longrightarrow> valid_Date dt"
  by (induction s rule: isoDate.induct) (auto split: if_splits dest: isoFields_valid)

lemma iso_2010_06_15:
  "isoDate ''2010-06-15'' = Some \<lparr>getFullYear = 2010, getMonth = 5, getDate = 15, msOfDay = 0\<rparr>"
  by (simp add: is_digit_def digit_val_def isoFields_def days_in_month_def)

lemma iso_2024_06_10:
  "isoDate ''2024-06-10'' = Some \<lparr>getFullYear = 2024, getMonth = 5, getDate = 10, msOfDay = 0\<rparr>"
  by (simp add: is_digit_def digit_val_def isoFields_def days_in_month_def)

lemma iso_2024_06_20:
  "isoDate ''2024-06-20'' = Some \<lparr>getFullYear = 2024, getMonth = 5, getDate = 20, msOfDay = 0\<rparr>"
  by (simp add: is_digit_def digit_val_def isoFields_def days_in_month_def)

text \<open>
  C1. For every pair of parseable birth and reference dates where the reference date is
  on or after the birth date, \<open>calculateAge\<close> returns \<open>years \<ge> 0\<close> and
  \<open>months\<close> in \<open>[0, 11]\<close>. The \<open>Date\<close> constructor is any function whose valid
  dates have a month field in 0..11 and a day field in 1..31.
\<close>

theorem calculateAge_range:
  assumes "constructs_valid newDate"
    and "safeDate newDate birthStr = Some b"
    and "safeDate newDate referenceStr = Some r"
    and "on_or_after r b"
  shows "0 \<le> years (calculateAge newDate now1 now2 birthStr referenceStr)
       \<and> 0 \<le> months (calculateAge newDate now1 now2 birthStr referenceStr)
       \<and> months (calculateAge newDate now1 now2 birthStr referenceStr) \<le> 11"
proof -
  have vb: "valid_Date b" and vr: "valid_Date r"
    using assms(1-3)
    by (auto simp: constructs_valid_def safeDate_def split: option.splits if_splits)
  have eq: "calculateAge newDate now1 now2 birthStr referenceStr = ageBetween b r"
    using assms(2,3) by (simp add: calculateAge_def)
  show ?thesis
    unfolding eq using ageBetween_years_nonneg [of b r] ageBetween_months_range [OF vb vr]
    by simp
qed

theorem calculateAge_range_witness:
  "constructs_valid isoDate
   \<and> safeDate isoDate (Some ''2010-06-15'')
       = Some \<lparr>getFullYear = 2010, getMonth = 5, getDate = 15, msOfDay = 0\<rparr>
   \<and> safeDate isoDate (Some ''2024-06-10'')
       = Some \<lparr>getFullYear = 2024, getMonth = 5, getDate = 10, msOfDay = 0\<rparr>
   \<and> on_or_after \<lparr>getFullYear = 2024, getMonth = 5, getDate = 10, msOfDay = 0\<rparr>
                  \<lparr>getFullYear = 2010, getMonth = 5, getDate = 15, msOfDay = 0\<rparr>
   \<and> 0 \<le> years (calculateAge isoDate epoch epoch (Some ''2010-06-15'') (Some ''2024-06-10''))
   \<and> 0 \<le> months (calculateAge isoDate epoch epoch (Some ''2010-06-15'') (Some ''2024-06-10''))
   \<and> months (calculateAge isoDate epoch epoch (Some ''2010-06-15'') (Some ''2024-06-10'')) \<le> 11"
proof -
  have h1: "constructs_valid isoDate"
    unfolding constructs_valid_def using isoDate_valid by blast
  have h2: "safeDate isoDate (Some ''2010-06-15'')
       = Some \<lparr>getFullYear = 2010, getMonth = 5, getDate = 15, msOfDay = 0\<rparr>"
    using iso_2010_06_15 by (simp add: safeDate_def)
  have h3: "safeDate isoDate (Some ''2024-06-10'')
       = Some \<lparr>getFullYear = 2024, getMonth = 5, getDate = 10, msOfDay = 0\<rparr>"
    using iso_2024_06_10 by (simp add: safeDate_def)
  have h4: "on_or_after \<lparr>getFullYear = 2024, getMonth = 5, getDate = 10, msOfDay = 0\<rparr>
                  \<lparr>getFullYear = 2010, getMonth = 5, getDate = 15, msOfDay = 0\<rparr>"
    by (simp add: on_or_after_def precedes_def)
  show ?thesis
    using h1 h2 h3 h4 calculateAge_range [OF h1 h2 h3 h4, of epoch epoch] by simp
qed

lemma precedes_asym: "precedes a b \<Longrightarrow> \<not> precedes b a"
  by (auto simp: precedes_def)

text \<open>
  C2. For every pair of parseable birth and reference dates where the reference date
  strictly precedes the birth date, \<open>calculateAge\<close> returns exactly
  \<open>{years: 0, months: 0}\<close>, so neither field is negative.
\<close>

theorem calculateAge_reference_before_birth:
  assumes "safeDate newDate birthStr = Some b"
    and "safeDate newDate referenceStr = Some r"
    and "precedes r b"
  shows "calculateAge newDate now1 now2 birthStr referenceStr = \<lparr>years = 0, months = 0\<rparr>"
proof -
  have "\<not> precedes b r"
    using assms(3) by (rule precedes_asym)
  then have "ageBetween b r = \<lparr>years = 0, months = 0\<rparr>"
    by (rule ageBetween_not_after)
  then show ?thesis
    using assms(1,2) by (simp add: calculateAge_def)
qed

theorem calculateAge_reference_before_birth_witness:
  "safeDate isoDate (Some ''2024-06-10'')
       = Some \<lparr>getFullYear = 2024, getMonth = 5, getDate = 10, msOfDay = 0\<rparr>
   \<and> safeDate isoDate (Some ''2010-06-15'')
       = Some \<lparr>getFullYear = 2010, getMonth = 5, getDate = 15, msOfDay = 0\<rparr>
   \<and> precedes \<lparr>getFullYear = 2010, getMonth = 5, getDate = 15, msOfDay = 0\<rparr>
               \<lparr>getFullYear = 2024, getMonth = 5, getDate = 10, msOfDay = 0\<rparr>
   \<and> calculateAge isoDate epoch epoch (Some ''2024-06-10'') (Some ''2010-06-15'')
       = \<lparr>years = 0, months = 0\<rparr>"
proof -
  have h1: "safeDate isoDate (Some ''2024-06-10'')
       = Some \<lparr>getFullYear = 2024, getMonth = 5, getDate = 10, msOfDay = 0\<rparr>"
    using iso_2024_06_10 by (simp add: safeDate_def)
  have h2: "safeDate isoDate (Some ''2010-06-15'')
       = Some \<lparr>getFullYear = 2010, getMonth = 5, getDate = 15, msOfDay = 0\<rparr>"
    using iso_2010_06_15 by (simp add: safeDate_def)
  have h3: "precedes \<lparr>getFullYear = 2010, getMonth = 5, getDate = 15, msOfDay = 0\<rparr>
               \<lparr>getFullYear = 2024, getMonth = 5, getDate = 10, msOfDay = 0\<rparr>"
    by (simp add: precedes_def)
  show ?thesis
    using h1 h2 h3 calculateAge_reference_before_birth [OF h1 h2 h3, of epoch epoch] by simp
qed

text \<open>
  C7. The partial-month borrow: for the birth date 2010-06-15 the age is
  \<open>{years: 13, months: 11}\<close> at the reference date 2024-06-10 (day 10 is before
  day 15, so one month is borrowed) and \<open>{years: 14, months: 0}\<close> at the reference
  date 2024-06-20, whatever the clock reads.
\<close>

theorem calculateAge_borrow_examples:
  "calculateAge isoDate now1 now2 (Some ''2010-06-15'') (Some ''2024-06-10'')
     = \<lparr>years = 13, months = 11\<rparr>
   \<and> calculateAge isoDate now1 now2 (Some ''2010-06-15'') (Some ''2024-06-20'')
     = \<lparr>years = 14, months = 0\<rparr>"
  using iso_2010_06_15 iso_2024_06_10 iso_2024_06_20
  by (simp add: calculateAge_def safeDate_def ageBetween_def)

section \<open>Properties of the growth projection component\<close>

lemma Math_round_eq_round: "Math_round v = round v"
proof (cases "frac v < 1 / 2")
  case True
  have "of_int \<lfloor>v\<rfloor> \<le> v + 1 / 2" "v + 1 / 2 < of_int \<lfloor>v\<rfloor> + 1"
    using True by (simp_all add: frac_def) linarith
  then have "\<lfloor>v + 1 / 2\<rfloor> = \<lfloor>v\<rfloor>"
    by (rule floor_unique)
  with True show ?thesis
    by (simp add: Math_round_def round_def)
next
  case False
  have "of_int (\<lfloor>v\<rfloor> + 1) \<le> v + 1 / 2" "v + 1 / 2 < of_int (\<lfloor>v\<rfloor> + 1) + 1"
    using False by (simp_all add: frac_def) linarith
  then have "\<lfloor>v + 1 / 2\<rfloor> = \<lfloor>v\<rfloor> + 1"
    by (rule floor_unique)
  with False show ?thesis
    by (simp add: Math_round_def round_def)
qed


lemma round_mono: "a \<le> b \<Longrightarrow> round (a::real) \<le> round b"
  by (simp add: round_def floor_mono)

lemma fl_1187: "fl (1187 / 10) = 8352769933888717 / 70368744177664"
  by (simp add: fl_def ulp_def binade.simps round_even_def Let_def)

lemma fl_015: "fl (3 / 20) = 5404319552844595 / 36028797018963968"
  by (simp add: fl_def ulp_def binade.simps round_even_def Let_def)

lemma predictedHeight_short_low: "predictedHeight short_patient low_result = 124"
  apply (simp add: predictedHeight_def or_default_def short_patient_def low_result_def
      fl_1187 fl_015)
  apply (simp add: fl_def ulp_def binade.simps round_even_def Let_def Math_round_eq_round
      round_def)
  done

text \<open>
  C4, as stated: the predicted adult height equals
  \<open>round((h, or 140 if h is unset) + 10 + (p - 0.5) * 12)\<close> for every probability and
  height. At the height 118.7 and the probability 0.15 the source's double arithmetic
  gives 124.49999999999999 and the predicted height 124, where the formula gives 125.
\<close>

theorem predictedHeight_exact_formula_counterexample:
  "predictedHeight short_patient low_result
     \<noteq> round ((if heightCm short_patient = 0 then 140 else heightCm short_patient) + 10
              + (probability low_result - 1 / 2) * 12)
   \<and> predictedHeight short_patient low_result = 124
   \<and> round ((if heightCm short_patient = 0 then 140 else heightCm short_patient) + 10
            + (probability low_result - 1 / 2) * 12) = 125
   \<and> round ((1187 / 10 :: real) + 10 + (3 / 20 - 1 / 2) * 12) = 125"
proof -
  have "round ((if heightCm short_patient = 0 then 140 else heightCm short_patient) + 10
            + (probability low_result - 1 / 2) * 12) = 125"
    unfolding short_patient_def low_result_def
    by (simp add: fl_1187 fl_015 round_def)
  moreover have "round ((1187 / 10 :: real) + 10 + (3 / 20 - 1 / 2) * 12) = 125"
    by (simp add: round_def)
  ultimately show ?thesis
    using predictedHeight_short_low by simp
qed

text \<open>
  The rounding \<open>fl\<close> moves a number by at most half the spacing \<open>ulp\<close>, which is at
  most \<open>2 ^ -52\<close> of the number's magnitude (above the subnormal range).
\<close>

lemma round_even_error: "\<bar>real_of_int (round_even y) - y\<bar> \<le> 1 / 2"
  unfolding round_even_def Let_def by (auto; linarith)

lemma binade_bounds: "0 < x \<Longrightarrow> 0 < binade x \<and> binade x \<le> x"
proof (induction x rule: binade.induct)
  case (1 x)
  show ?case
  proof (cases "2 \<le> x")
    case True
    with "1.prems" "1.IH"(1) have "0 < binade (x / 2) \<and> binade (x / 2) \<le> x / 2"
      by simp
    with True "1.prems" show ?thesis
      by (subst (1 2) binade.simps) simp
  next
    case False
    show ?thesis
    proof (cases "x < 1")
      case True
      with False "1.prems" "1.IH"(2) have "0 < binade (x * 2) \<and> binade (x * 2) \<le> x * 2"
        by simp
      with True False "1.prems" show ?thesis
        by (subst (1 2) binade.simps) simp
    next
      case False
      with \<open>\<not> 2 \<le> x\<close> "1.prems" show ?thesis
        by (subst (1 2) binade.simps) simp
    qed
  qed
qed

lemma ulp_pos: "0 < ulp x"
  by (simp add: ulp_def max_def)

lemma fl_zero: "fl 0 = 0"
  by (simp add: fl_def round_even_def)

lemma fl_nearest: "\<bar>fl x - x\<bar> \<le> ulp x / 2"
proof -
  have "fl x - x = (real_of_int (round_even (x / ulp x)) - x / ulp x) * ulp x"
    using ulp_pos [of x] by (simp add: fl_def algebra_simps)
  then have "\<bar>fl x - x\<bar> = \<bar>real_of_int (round_even (x / ulp x)) - x / ulp x\<bar> * ulp x"
    using ulp_pos [of x] by (simp add: abs_mult)
  also have "\<dots> \<le> 1 / 2 * ulp x"
    using round_even_error [of "x / ulp x"] ulp_pos [of x]
    by (intro mult_right_mono) simp_all
  finally show ?thesis
    by simp
qed

lemma fl_error:
  assumes "\<bar>x\<bar> \<le> M" and "1 / 2 ^ 1022 \<le> M"
  shows "\<bar>fl x - x\<bar> \<le> M / 2 ^ 53"
proof (cases "x = 0")
  case True
  with assms(2) show ?thesis
    by (simp add: fl_zero)
next
  case False
  then have "binade \<bar>x\<bar> \<le> \<bar>x\<bar>"
    using binade_bounds [of "\<bar>x\<bar>"] by simp
  with assms have "max (binade \<bar>x\<bar>) (1 / 2 ^ 1022) \<le> M"
    by simp
  then have "ulp x \<le> M / 2 ^ 52"
    unfolding ulp_def by (simp add: divide_right_mono)
  with fl_nearest [of x] show ?thesis
    by simp
qed


lemma round_near:
  assumes "\<bar>a - b\<bar> \<le> (1::real)"
  shows "\<bar>round a - round b\<bar> \<le> 1"
proof -
  have "round a \<le> round (b + 1)" "round (b - 1) \<le> round a"
    using assms by (auto intro!: round_mono)
  moreover have "round (b + 1) = round b + 1" "round (b - 1) = round b - 1"
    by (simp_all add: round_def) linarith+
  ultimately show ?thesis
    by linarith
qed

lemma fl_error_u:
  assumes "\<bar>x\<bar> \<le> M" and "1 \<le> M"
  shows "\<bar>fl x - x\<bar> \<le> M * (1 / 2 ^ 53)"
proof -
  have "(1::real) / 2 ^ 1022 \<le> 1"
    by simp
  with assms(2) have "1 / 2 ^ 1022 \<le> M"
    by linarith
  with assms(1) have "\<bar>fl x - x\<bar> \<le> M / 2 ^ 53"
    by (rule fl_error)
  then show ?thesis
    by simp
qed

lemma predictedHeight_near_exact:
  assumes "0 \<le> heightCm p" and "heightCm p \<le> 1000"
    and "0 \<le> probability r" and "probability r \<le> 1"
  shows "\<bar>predictedHeight p r
           - round ((if heightCm p = 0 then 140 else heightCm p) + 10
                    + (probability r - 1 / 2) * 12)\<bar> \<le> 1"
proof -
  define b where "b = (if heightCm p = 0 then 140 else heightCm p)"
  define q where "q = probability r"
  define a1 where "a1 = fl (b + 10)"
  define d1 where "d1 = fl (q - 1 / 2)"
  define d2 where "d2 = fl (d1 * 12)"
  define s where "s = fl (a1 + d2)"
  define u :: real where "u = 1 / 2 ^ 53"
  have u: "0 \<le> u" "u \<le> 1 / 4096"
    by (simp_all add: u_def)
  have b: "0 < b" "b \<le> 1000"
    using assms(1,2) by (auto simp: b_def)
  have q: "0 \<le> q" "q \<le> 1"
    using assms(3,4) by (simp_all add: q_def)
  have "\<bar>b + 10\<bar> \<le> 1010"
    using b by simp
  then have e1: "\<bar>a1 - (b + 10)\<bar> \<le> 1010 * u"
    unfolding a1_def u_def by (rule fl_error_u) simp
  have "\<bar>q - 1 / 2\<bar> \<le> 1"
    using q by simp
  then have f1: "\<bar>d1 - (q - 1 / 2)\<bar> \<le> 1 * u"
    unfolding d1_def u_def by (rule fl_error_u) simp
  have d1b: "\<bar>d1 * 12\<bar> \<le> 12"
    using f1 q u by simp
  then have f2: "\<bar>d2 - d1 * 12\<bar> \<le> 12 * u"
    unfolding d2_def u_def by (rule fl_error_u) simp
  have zb: "\<bar>a1 + d2\<bar> \<le> 1024"
    using e1 f2 d1b b u by simp
  then have g: "\<bar>s - (a1 + d2)\<bar> \<le> 1024 * u"
    unfolding s_def u_def by (rule fl_error_u) simp
  have "\<bar>s - (b + 10 + (q - 1 / 2) * 12)\<bar> \<le> 1"
    using e1 f1 f2 g u by simp
  then have "\<bar>round s - round (b + 10 + (q - 1 / 2) * 12)\<bar> \<le> 1"
    by (rule round_near)
  moreover have "predictedHeight p r = round s"
    by (simp add: predictedHeight_def or_default_def Math_round_eq_round s_def a1_def d2_def
        d1_def b_def q_def)
  ultimately show ?thesis
    by (simp add: b_def q_def)
qed

text \<open>
  C4, amended. For every probability and patient height, the predicted adult height is
  \<open>Math.round\<close> of the double-precision value of
  \<open>((h, or 140 if h is unset) + 10) + ((p - 0.5) * 12)\<close>, each of the four operations
  rounded to the nearest double, where an unset height is 0; the predicted range is
  \<open>{min: max(120, predicted - 4), max: predicted + 3}\<close>; and for a height between 0
  and 1000 and a probability in \<open>[0, 1]\<close> the predicted height differs by at most 1
  from \<open>round((h, or 140 if h is unset) + 10 + (p - 0.5) * 12)\<close> computed exactly.
\<close>

theorem predictedHeight_double_formula:
  "predictedHeight patientInfo result
     = round (fl (fl ((if heightCm patientInfo = 0 then 140 else heightCm patientInfo) + 10)
                  + fl (fl (probability result - 1 / 2) * 12)))
   \<and> predictedRange patientInfo result
     = \<lparr>range_min = max 120 (predictedHeight patientInfo result - 4),
        range_max = predictedHeight patientInfo result + 3\<rparr>
   \<and> (0 \<le> heightCm patientInfo \<and> heightCm patientInfo \<le> 1000
        \<and> 0 \<le> probability result \<and> probability result \<le> 1
      \<longrightarrow> \<bar>predictedHeight patientInfo result
             - round ((if heightCm patientInfo = 0 then 140 else heightCm patientInfo) + 10
                      + (probability result - 1 / 2) * 12)\<bar> \<le> 1)"
proof -
  have "predictedHeight patientInfo result
     = round (fl (fl ((if heightCm patientInfo = 0 then 140 else heightCm patientInfo) + 10)
                  + fl (fl (probability result - 1 / 2) * 12)))"
    by (simp add: predictedHeight_def or_default_def Math_round_eq_round)
  moreover have "predictedRange patientInfo result
     = \<lparr>range_min = max 120 (predictedHeight patientInfo result - 4),
        range_max = predictedHeight patientInfo result + 3\<rparr>"
    by (simp add: predictedRange_def)
  ultimately show ?thesis
    using predictedHeight_near_exact [of patientInfo result] by blast
qed

theorem predictedHeight_double_formula_witness:
  "0 \<le> heightCm short_patient \<and> heightCm short_patient \<le> 1000
   \<and> 0 \<le> probability low_result \<and> probability low_result \<le> 1
   \<and> \<bar>predictedHeight short_patient low_result
        - round ((if heightCm short_patient = 0 then 140 else heightCm short_patient) + 10
                 + (probability low_result - 1 / 2) * 12)\<bar> \<le> 1
   \<and> predictedRange short_patient low_result = \<lparr>range_min = 120, range_max = 127\<rparr>"
proof -
  have h: "0 \<le> heightCm short_patient \<and> heightCm short_patient \<le> 1000
      \<and> 0 \<le> probability low_result \<and> probability low_result \<le> 1"
    by (simp add: short_patient_def low_result_def fl_1187 fl_015)
  note t = predictedHeight_double_formula [of short_patient low_result]
  from t h have near: "\<bar>predictedHeight short_patient low_result
        - round ((if heightCm short_patient = 0 then 140 else heightCm short_patient) + 10
                 + (probability low_result - 1 / 2) * 12)\<bar> \<le> 1"
    by blast
  from t have "predictedRange short_patient low_result
     = \<lparr>range_min = max 120 (predictedHeight short_patient low_result - 4),
        range_max = predictedHeight short_patient low_result + 3\<rparr>"
    by blast
  then have "predictedRange short_patient low_result = \<lparr>range_min = 120, range_max = 127\<rparr>"
    by (simp add: predictedHeight_short_low)
  with h near show ?thesis
    by blast
qed











section \<open>Properties of the inference gateway\<close>

lemma str_eq_iff [simp]: "str a = str b \<longleftrightarrow> a = b"
  by (simp add: str_def inj_map_eq_map [OF inj_of_char])

lemma handler_parsed:
  assumes "httpMethod event = str ''POST''"
    and "envTrimmed (OPENAI_API_KEY env) = Some apiKey"
    and "JSON_parse rt (case event_body event of None \<Rightarrow> str ''{}''
                        | Some b \<Rightarrow> if b = [] then str ''{}'' else b) = Some body"
    and "getProp body (str ''imageDataUrl'') = Some (JStr imageDataUrl)"
    and "startsWith imageDataUrl (str ''data:image/'')"
    and "fetch rt apiKey
           (case envTrimmed (OPENAI_MODEL env) of None \<Rightarrow> str ''gpt-4o-mini'' | Some m \<Rightarrow> m)
           imageDataUrl = Resolved openaiRes"
    and "ok openaiRes"
    and "JSON_parse rt (extractOutputText (payload openaiRes)) = Some parsed"
  shows "handler rt env event = analysisResponse rt parsed"
  using assms by (simp add: handler_def analyze_def Let_def)

lemma analysisResponse_null:
  "analysisResponse rt JNull = json 500 (AnalyzeFailedBody TypeError_null)"
  by (simp add: analysisResponse_def)

lemma analysisResponse_unprintable:
  "parsed \<noteq> JNull \<Longrightarrow> findingText rt parsed = None
    \<Longrightarrow> analysisResponse rt parsed = json 500 (AnalyzeFailedBody TypeError_String)"
  by (simp add: analysisResponse_def Let_def)

lemma upstreamError_not_analysis: "upstreamError res \<noteq> json 200 (AnalysisBody a)"
  by (simp add: upstreamError_def Let_def json_def)

lemma analysisResponse_success_iff:
  "(\<exists>a. analysisResponse rt parsed = json 200 (AnalysisBody a))
     \<longleftrightarrow> parsed \<noteq> JNull \<and> findingText rt parsed \<noteq> None"
proof (cases "parsed = JNull")
  case True
  then show ?thesis
    by (simp add: analysisResponse_null json_def)
next
  case False
  show ?thesis
  proof (cases "findingText rt parsed")
    case None
    with False show ?thesis
      by (simp add: analysisResponse_unprintable json_def)
  next
    case (Some findingStr)
    with False have "\<exists>a. analysisResponse rt parsed = json 200 (AnalysisBody a)"
      unfolding analysisResponse_def Let_def by (simp only: if_False option.case) (rule exI, rule refl)
    with False Some show ?thesis
      by simp
  qed
qed

lemma analyze_success_path:
  assumes "analyze rt apiKey resolvedModel imageDataUrl = json 200 (AnalysisBody a)"
  shows "\<exists>openaiRes parsed.
      fetch rt apiKey resolvedModel imageDataUrl = Resolved openaiRes \<and> ok openaiRes
      \<and> JSON_parse rt (extractOutputText (payload openaiRes)) = Some parsed
      \<and> parsed \<noteq> JNull \<and> findingText rt parsed \<noteq> None"
proof (cases "fetch rt apiKey resolvedModel imageDataUrl")
  case (Rejected m)
  with assms show ?thesis
    by (simp add: analyze_def json_def)
next
  case (Resolved res)
  show ?thesis
  proof (cases "ok res")
    case False
    with assms Resolved show ?thesis
      by (simp add: analyze_def upstreamError_not_analysis)
  next
    case True
    show ?thesis
    proof (cases "JSON_parse rt (extractOutputText (payload res))")
      case None
      with assms Resolved True show ?thesis
        by (simp add: analyze_def Let_def json_def)
    next
      case (Some parsed)
      with assms Resolved True have "analysisResponse rt parsed = json 200 (AnalysisBody a)"
        by (simp add: analyze_def Let_def)
      then have "parsed \<noteq> JNull \<and> findingText rt parsed \<noteq> None"
        using analysisResponse_success_iff [of rt parsed] by blast
      with Resolved True Some show ?thesis
        by simp
    qed
  qed
qed

lemma handler_success_path:
  assumes "handler rt env event = json 200 (AnalysisBody a)"
  shows "\<exists>apiKey body imageDataUrl.
      httpMethod event = str ''POST''
      \<and> envTrimmed (OPENAI_API_KEY env) = Some apiKey
      \<and> JSON_parse rt (case event_body event of None \<Rightarrow> str ''{}''
                         | Some b \<Rightarrow> if b = [] then str ''{}'' else b) = Some body
      \<and> getProp body (str ''imageDataUrl'') = Some (JStr imageDataUrl)
      \<and> startsWith imageDataUrl (str ''data:image/'')
      \<and> analyze rt apiKey
           (case envTrimmed (OPENAI_MODEL env) of None \<Rightarrow> str ''gpt-4o-mini'' | Some m \<Rightarrow> m)
           imageDataUrl = json 200 (AnalysisBody a)"
  using assms
  by (auto simp: handler_def json_def Let_def split: if_splits option.splits json.splits)

lemma analysisResponse_probability:
  assumes "analysisResponse rt parsed = json 200 (AnalysisBody a)"
  shows "out_probability a =
    (case getProp parsed (str ''probability'') of Some (JNum v) \<Rightarrow> max 0 (min 1 v) | _ \<Rightarrow> 0)"
  using assms
  by (auto simp: analysisResponse_def Let_def json_def split: if_splits option.splits)

lemma analysisResponse_severity:
  assumes "analysisResponse rt parsed = json 200 (AnalysisBody a)"
  shows "out_severity a =
    (case getProp parsed (str ''severity'') of
       Some (JStr s) \<Rightarrow>
         if s = str ''High'' \<or> s = str ''Medium'' \<or> s = str ''Low'' then s else str ''Low''
     | _ \<Rightarrow> str ''Low'')"
  using assms
  by (auto simp: analysisResponse_def Let_def json_def split: if_splits option.splits)

lemma analysisResponse_boxes:
  assumes "analysisResponse rt parsed = json 200 (AnalysisBody a)"
  shows "out_boundingBoxes a =
    (case getProp parsed (str ''boundingBoxes'') of Some (JArr boxes) \<Rightarrow> boxes | _ \<Rightarrow> [])"
  using assms
  by (auto simp: analysisResponse_def Let_def json_def split: if_splits option.splits)

text \<open>
  C8. For every upstream model response the gateway successfully parses (a POST with an
  API key and an image data URL, an \<open>ok\<close> upstream response, a model text that
  \<open>JSON.parse\<close> accepts): the gateway answers with a success response exactly when the
  parsed value is not \<open>null\<close> and \<open>String\<close> of its finding does not throw, and a
  success response carries a probability in \<open>[0, 1]\<close>, the upstream number clamped,
  and a severity equal to the upstream value when that is one of Low/Medium/High and
  \<open>Low\<close> otherwise.
\<close>

theorem handler_probability_severity:
  assumes "httpMethod event = str ''POST''"
    and "envTrimmed (OPENAI_API_KEY env) = Some apiKey"
    and "JSON_parse rt (case event_body event of None \<Rightarrow> str ''{}''
                        | Some b \<Rightarrow> if b = [] then str ''{}'' else b) = Some body"
    and "getProp body (str ''imageDataUrl'') = Some (JStr imageDataUrl)"
    and "startsWith imageDataUrl (str ''data:image/'')"
    and "fetch rt apiKey
           (case envTrimmed (OPENAI_MODEL env) of None \<Rightarrow> str ''gpt-4o-mini'' | Some m \<Rightarrow> m)
           imageDataUrl = Resolved openaiRes"
    and "ok openaiRes"
    and "JSON_parse rt (extractOutputText (payload openaiRes)) = Some parsed"
  shows "((\<exists>a. handler rt env event = json 200 (AnalysisBody a))
       \<longleftrightarrow> parsed \<noteq> JNull \<and> findingText rt parsed \<noteq> None)
    \<and> (\<forall>a. handler rt env event = json 200 (AnalysisBody a) \<longrightarrow>
          0 \<le> out_probability a \<and> out_probability a \<le> 1
          \<and> (\<forall>v. getProp parsed (str ''probability'') = Some (JNum v)
                \<longrightarrow> out_probability a = max 0 (min 1 v))
          \<and> (\<forall>s. getProp parsed (str ''severity'') = Some (JStr s)
                    \<and> (s = str ''Low'' \<or> s = str ''Medium'' \<or> s = str ''High'')
                \<longrightarrow> out_severity a = s)
          \<and> ((\<forall>s. getProp parsed (str ''severity'') = Some (JStr s)
                    \<longrightarrow> s \<noteq> str ''Low'' \<and> s \<noteq> str ''Medium'' \<and> s \<noteq> str ''High'')
                \<longrightarrow> out_severity a = str ''Low''))"
proof -
  have h: "handler rt env event = analysisResponse rt parsed"
    using assms by (rule handler_parsed)
  have ex: "((\<exists>a. handler rt env event = json 200 (AnalysisBody a))
       \<longleftrightarrow> parsed \<noteq> JNull \<and> findingText rt parsed \<noteq> None)"
    unfolding h by (rule analysisResponse_success_iff)
  have fields: "0 \<le> out_probability a \<and> out_probability a \<le> 1
          \<and> (\<forall>v. getProp parsed (str ''probability'') = Some (JNum v)
                \<longrightarrow> out_probability a = max 0 (min 1 v))
          \<and> (\<forall>s. getProp parsed (str ''severity'') = Some (JStr s)
                    \<and> (s = str ''Low'' \<or> s = str ''Medium'' \<or> s = str ''High'')
                \<longrightarrow> out_severity a = s)
          \<and> ((\<forall>s. getProp parsed (str ''severity'') = Some (JStr s)
                    \<longrightarrow> s \<noteq> str ''Low'' \<and> s \<noteq> str ''Medium'' \<and> s \<noteq> str ''High'')
                \<longrightarrow> out_severity a = str ''Low'')"
    if "handler rt env event = json 200 (AnalysisBody a)" for a
  proof -
    have s: "analysisResponse rt parsed = json 200 (AnalysisBody a)"
      using that h by simp
    have p: "out_probability a =
        (case getProp parsed (str ''probability'') of
           Some (JNum v) \<Rightarrow> max 0 (min 1 v) | _ \<Rightarrow> 0)"
      using s by (rule analysisResponse_probability)
    have v: "out_severity a =
        (case getProp parsed (str ''severity'') of
           Some (JStr s) \<Rightarrow>
             if s = str ''High'' \<or> s = str ''Medium'' \<or> s = str ''Low'' then s else str ''Low''
         | _ \<Rightarrow> str ''Low'')"
      using s by (rule analysisResponse_severity)
    have p1: "0 \<le> out_probability a \<and> out_probability a \<le> 1"
      unfolding p by (simp split: option.split json.split)
    have p2: "\<forall>v. getProp parsed (str ''probability'') = Some (JNum v)
                \<longrightarrow> out_probability a = max 0 (min 1 v)"
      unfolding p by simp
    have v1: "\<forall>s. getProp parsed (str ''severity'') = Some (JStr s)
                    \<and> (s = str ''Low'' \<or> s = str ''Medium'' \<or> s = str ''High'')
                \<longrightarrow> out_severity a = s"
      unfolding v by auto
    have v2: "(\<forall>s. getProp parsed (str ''severity'') = Some (JStr s)
                    \<longrightarrow> s \<noteq> str ''Low'' \<and> s \<noteq> str ''Medium'' \<and> s \<noteq> str ''High'')
                \<longrightarrow> out_severity a = str ''Low''"
      unfolding v by (simp split: option.split json.split)
    show ?thesis
      using p1 p2 v1 v2 by blast
  qed
  show ?thesis
    using ex fields by blast
qed

lemma example_request_path:
  "httpMethod example_event = str ''POST''"
  "envTrimmed (OPENAI_API_KEY example_env) = Some (str ''sk-test'')"
  "JSON_parse (example_runtime t)
     (case event_body example_event of None \<Rightarrow> str ''{}''
      | Some b \<Rightarrow> if b = [] then str ''{}'' else b)
     = Some (JObj [(str ''imageDataUrl'', JStr (str ''data:image/png;base64,AAAA'')),
                   (str ''fileName'', JStr (str ''hand.png''))])"
  "getProp (JObj [(str ''imageDataUrl'', JStr (str ''data:image/png;base64,AAAA'')),
                  (str ''fileName'', JStr (str ''hand.png''))]) (str ''imageDataUrl'')
     = Some (JStr (str ''data:image/png;base64,AAAA''))"
  "startsWith (str ''data:image/png;base64,AAAA'') (str ''data:image/'')"
  "fetch (example_runtime t) (str ''sk-test'')
     (case envTrimmed (OPENAI_MODEL example_env) of None \<Rightarrow> str ''gpt-4o-mini'' | Some m \<Rightarrow> m)
     (str ''data:image/png;base64,AAAA'')
     = Resolved \<lparr>ok = True, status = 200, statusText = str ''OK'',
                  payload = JObj [(str ''output_text'', JStr t)]\<rparr>"
  "ok \<lparr>ok = True, status = 200, statusText = str ''OK'',
       payload = JObj [(str ''output_text'', JStr t)]\<rparr>"
  "extractOutputText (payload \<lparr>ok = True, status = 200, statusText = str ''OK'',
                               payload = JObj [(str ''output_text'', JStr t)]\<rparr>) = t"
proof -
  have tr: "trim (str ''sk-test'') = str ''sk-test''"
    by (simp add: trim_def str_def is_space_def)
  show "httpMethod example_event = str ''POST''"
    by (simp add: example_event_def)
  show "envTrimmed (OPENAI_API_KEY example_env) = Some (str ''sk-test'')"
    using tr by (simp add: example_env_def envTrimmed_def str_def)
  show "JSON_parse (example_runtime t)
     (case event_body example_event of None \<Rightarrow> str ''{}''
      | Some b \<Rightarrow> if b = [] then str ''{}'' else b)
     = Some (JObj [(str ''imageDataUrl'', JStr (str ''data:image/png;base64,AAAA'')),
                   (str ''fileName'', JStr (str ''hand.png''))])"
    by (simp add: example_event_def example_runtime_def example_parse_def example_request_def
        str_def)
  show "getProp (JObj [(str ''imageDataUrl'', JStr (str ''data:image/png;base64,AAAA'')),
                  (str ''fileName'', JStr (str ''hand.png''))]) (str ''imageDataUrl'')
     = Some (JStr (str ''data:image/png;base64,AAAA''))"
    by simp
  show "startsWith (str ''data:image/png;base64,AAAA'') (str ''data:image/'')"
    by (simp add: startsWith_def str_def)
  show "fetch (example_runtime t) (str ''sk-test'')
     (case envTrimmed (OPENAI_MODEL example_env) of None \<Rightarrow> str ''gpt-4o-mini'' | Some m \<Rightarrow> m)
     (str ''data:image/png;base64,AAAA'')
     = Resolved \<lparr>ok = True, status = 200, statusText = str ''OK'',
                  payload = JObj [(str ''output_text'', JStr t)]\<rparr>"
    by (simp add: example_runtime_def)
  show "ok \<lparr>ok = True, status = 200, statusText = str ''OK'',
       payload = JObj [(str ''output_text'', JStr t)]\<rparr>"
    by simp
  show "extractOutputText (payload \<lparr>ok = True, status = 200, statusText = str ''OK'',
                               payload = JObj [(str ''output_text'', JStr t)]\<rparr>) = t"
    by (simp add: extractOutputText_def)
qed

theorem handler_probability_severity_witness:
  "httpMethod example_event = str ''POST''
   \<and> envTrimmed (OPENAI_API_KEY example_env) = Some (str ''sk-test'')
   \<and> JSON_parse (example_runtime example_output)
       (case event_body example_event of None \<Rightarrow> str ''{}''
        | Some b \<Rightarrow> if b = [] then str ''{}'' else b)
       = Some (JObj [(str ''imageDataUrl'', JStr (str ''data:image/png;base64,AAAA'')),
                     (str ''fileName'', JStr (str ''hand.png''))])
   \<and> getProp (JObj [(str ''imageDataUrl'', JStr (str ''data:image/png;base64,AAAA'')),
                    (str ''fileName'', JStr (str ''hand.png''))]) (str ''imageDataUrl'')
       = Some (JStr (str ''data:image/png;base64,AAAA''))
   \<and> startsWith (str ''data:image/png;base64,AAAA'') (str ''data:image/'')
   \<and> fetch (example_runtime example_output) (str ''sk-test'')
       (case envTrimmed (OPENAI_MODEL example_env) of None \<Rightarrow> str ''gpt-4o-mini'' | Some m \<Rightarrow> m)
       (str ''data:image/png;base64,AAAA'')
       = Resolved \<lparr>ok = True, status = 200, statusText = str ''OK'',
                    payload = JObj [(str ''output_text'', JStr example_output)]\<rparr>
   \<and> ok \<lparr>ok = True, status = 200, statusText = str ''OK'',
          payload = JObj [(str ''output_text'', JStr example_output)]\<rparr>
   \<and> JSON_parse (example_runtime example_output)
       (extractOutputText (payload \<lparr>ok = True, status = 200, statusText = str ''OK'',
          payload = JObj [(str ''output_text'', JStr example_output)]\<rparr>))
       = Some (JObj [(str ''finding'', JStr (str ''x'')), (str ''probability'', JNum (17 / 10)),
                     (str ''severity'', JStr (str ''Critical'')), (str ''boundingBoxes'', JArr [])])
   \<and> (\<exists>a. handler (example_runtime example_output) example_env example_event
              = json 200 (AnalysisBody a)
            \<and> out_probability a = 1 \<and> out_severity a = str ''Low'')"
proof -
  let ?parsed = "JObj [(str ''finding'', JStr (str ''x'')), (str ''probability'', JNum (17 / 10)),
                     (str ''severity'', JStr (str ''Critical'')), (str ''boundingBoxes'', JArr [])]"
  note p = example_request_path
  have h8: "JSON_parse (example_runtime example_output)
       (extractOutputText (payload \<lparr>ok = True, status = 200, statusText = str ''OK'',
          payload = JObj [(str ''output_text'', JStr example_output)]\<rparr>)) = Some ?parsed"
    unfolding p(8)
    by (simp add: example_runtime_def example_parse_def example_output_def example_request_def)
  note t = handler_probability_severity [OF p(1) p(2) p(3) p(4) p(5) p(6) p(7) h8]
  have "?parsed \<noteq> JNull \<and> findingText (example_runtime example_output) ?parsed \<noteq> None"
    by (simp add: findingText_def)
  with t obtain a where a: "handler (example_runtime example_output) example_env example_event
      = json 200 (AnalysisBody a)"
    by blast
  from t a have pv: "\<forall>v. getProp ?parsed (str ''probability'') = Some (JNum v)
      \<longrightarrow> out_probability a = max 0 (min 1 v)"
    and sv: "(\<forall>s. getProp ?parsed (str ''severity'') = Some (JStr s)
      \<longrightarrow> s \<noteq> str ''Low'' \<and> s \<noteq> str ''Medium'' \<and> s \<noteq> str ''High'')
      \<longrightarrow> out_severity a = str ''Low''"
    by blast+
  have "getProp ?parsed (str ''probability'') = Some (JNum (17 / 10))"
    by simp
  with pv have "out_probability a = max 0 (min 1 (17 / 10))"
    by blast
  then have pa: "out_probability a = 1"
    by simp
  have "\<forall>s. getProp ?parsed (str ''severity'') = Some (JStr s)
      \<longrightarrow> s \<noteq> str ''Low'' \<and> s \<noteq> str ''Medium'' \<and> s \<noteq> str ''High''"
    by simp
  with sv have "out_severity a = str ''Low''"
    by blast
  with pa a have "\<exists>a. handler (example_runtime example_output) example_env example_event
              = json 200 (AnalysisBody a)
            \<and> out_probability a = 1 \<and> out_severity a = str ''Low''"
    by blast
  then show ?thesis
    using p h8 by simp
qed

text \<open>
  C10. For every upstream model output whose JSON parses: the gateway answers with a
  success response exactly when the parsed value is not \<open>null\<close> and \<open>String\<close> of
  its finding does not throw; when the \<open>probability\<close> field is missing or not a number
  the success response has probability exactly 0, and when the \<open>boundingBoxes\<close> field
  is missing or not an array its \<open>boundingBoxes\<close> is the empty array.
\<close>

theorem handler_defaults:
  assumes "httpMethod event = str ''POST''"
    and "envTrimmed (OPENAI_API_KEY env) = Some apiKey"
    and "JSON_parse rt (case event_body event of None \<Rightarrow> str ''{}''
                        | Some b \<Rightarrow> if b = [] then str ''{}'' else b) = Some body"
    and "getProp body (str ''imageDataUrl'') = Some (JStr imageDataUrl)"
    and "startsWith imageDataUrl (str ''data:image/'')"
    and "fetch rt apiKey
           (case envTrimmed (OPENAI_MODEL env) of None \<Rightarrow> str ''gpt-4o-mini'' | Some m \<Rightarrow> m)
           imageDataUrl = Resolved openaiRes"
    and "ok openaiRes"
    and "JSON_parse rt (extractOutputText (payload openaiRes)) = Some parsed"
  shows "((\<exists>a. handler rt env event = json 200 (AnalysisBody a))
       \<longleftrightarrow> parsed \<noteq> JNull \<and> findingText rt parsed \<noteq> None)
    \<and> (\<forall>a. handler rt env event = json 200 (AnalysisBody a) \<longrightarrow>
          ((\<forall>v. getProp parsed (str ''probability'') \<noteq> Some (JNum v)) \<longrightarrow> out_probability a = 0)
          \<and> ((\<forall>boxes. getProp parsed (str ''boundingBoxes'') \<noteq> Some (JArr boxes))
                \<longrightarrow> out_boundingBoxes a = []))"
proof -
  have h: "handler rt env event = analysisResponse rt parsed"
    using assms by (rule handler_parsed)
  have ex: "((\<exists>a. handler rt env event = json 200 (AnalysisBody a))
       \<longleftrightarrow> parsed \<noteq> JNull \<and> findingText rt parsed \<noteq> None)"
    unfolding h by (rule analysisResponse_success_iff)
  have fields: "((\<forall>v. getProp parsed (str ''probability'') \<noteq> Some (JNum v)) \<longrightarrow> out_probability a = 0)
          \<and> ((\<forall>boxes. getProp parsed (str ''boundingBoxes'') \<noteq> Some (JArr boxes))
                \<longrightarrow> out_boundingBoxes a = [])"
    if "handler rt env event = json 200 (AnalysisBody a)" for a
  proof -
    have s: "analysisResponse rt parsed = json 200 (AnalysisBody a)"
      using that h by simp
    have p: "out_probability a =
        (case getProp parsed (str ''probability'') of
           Some (JNum v) \<Rightarrow> max 0 (min 1 v) | _ \<Rightarrow> 0)"
      using s by (rule analysisResponse_probability)
    have b: "out_boundingBoxes a =
        (case getProp parsed (str ''boundingBoxes'') of Some (JArr boxes) \<Rightarrow> boxes | _ \<Rightarrow> [])"
      using s by (rule analysisResponse_boxes)
    have p0: "(\<forall>v. getProp parsed (str ''probability'') \<noteq> Some (JNum v))
        \<longrightarrow> out_probability a = 0"
      unfolding p by (simp split: option.split json.split)
    have b0: "(\<forall>boxes. getProp parsed (str ''boundingBoxes'') \<noteq> Some (JArr boxes))
                \<longrightarrow> out_boundingBoxes a = []"
      unfolding b by (simp split: option.split json.split)
    show ?thesis
      using p0 b0 by blast
  qed
  show ?thesis
    using ex fields by blast
qed

theorem handler_defaults_witness:
  "httpMethod example_event = str ''POST''
   \<and> envTrimmed (OPENAI_API_KEY example_env) = Some (str ''sk-test'')
   \<and> JSON_parse (example_runtime example_sparse_output)
       (case event_body example_event of None \<Rightarrow> str ''{}''
        | Some b \<Rightarrow> if b = [] then str ''{}'' else b)
       = Some (JObj [(str ''imageDataUrl'', JStr (str ''data:image/png;base64,AAAA'')),
                     (str ''fileName'', JStr (str ''hand.png''))])
   \<and> getProp (JObj [(str ''imageDataUrl'', JStr (str ''data:image/png;base64,AAAA'')),
                    (str ''fileName'', JStr (str ''hand.png''))]) (str ''imageDataUrl'')
       = Some (JStr (str ''data:image/png;base64,AAAA''))
   \<and> startsWith (str ''data:image/png;base64,AAAA'') (str ''data:image/'')
   \<and> fetch (example_runtime example_sparse_output) (str ''sk-test'')
       (case envTrimmed (OPENAI_MODEL example_env) of None \<Rightarrow> str ''gpt-4o-mini'' | Some m \<Rightarrow> m)
       (str ''data:image/png;base64,AAAA'')
       = Resolved \<lparr>ok = True, status = 200, statusText = str ''OK'',
                    payload = JObj [(str ''output_text'', JStr example_sparse_output)]\<rparr>
   \<and> ok \<lparr>ok = True, status = 200, statusText = str ''OK'',
          payload = JObj [(str ''output_text'', JStr example_sparse_output)]\<rparr>
   \<and> JSON_parse (example_runtime example_sparse_output)
       (extractOutputText (payload \<lparr>ok = True, status = 200, statusText = str ''OK'',
          payload = JObj [(str ''output_text'', JStr example_sparse_output)]\<rparr>))
       = Some (JObj [(str ''finding'', JStr (str ''x'')), (str ''probability'', JStr (str ''high'')),
                     (str ''severity'', JStr (str ''High''))])
   \<and> (\<exists>a. handler (example_runtime example_sparse_output) example_env example_event
              = json 200 (AnalysisBody a)
            \<and> out_probability a = 0 \<and> out_boundingBoxes a = [])"
proof -
  let ?parsed = "JObj [(str ''finding'', JStr (str ''x'')), (str ''probability'', JStr (str ''high'')),
                     (str ''severity'', JStr (str ''High''))]"
  note p = example_request_path
  have h8: "JSON_parse (example_runtime example_sparse_output)
       (extractOutputText (payload \<lparr>ok = True, status = 200, statusText = str ''OK'',
          payload = JObj [(str ''output_text'', JStr example_sparse_output)]\<rparr>)) = Some ?parsed"
    unfolding p(8)
    by (simp add: example_runtime_def example_parse_def example_sparse_output_def
        example_output_def example_request_def)
  note t = handler_defaults [OF p(1) p(2) p(3) p(4) p(5) p(6) p(7) h8]
  have "?parsed \<noteq> JNull \<and> findingText (example_runtime example_sparse_output) ?parsed \<noteq> None"
    by (simp add: findingText_def)
  with t obtain a where a: "handler (example_runtime example_sparse_output) example_env example_event
      = json 200 (AnalysisBody a)"
    by blast
  from t a have pv: "(\<forall>v. getProp ?parsed (str ''probability'') \<noteq> Some (JNum v))
      \<longrightarrow> out_probability a = 0"
    and bv: "(\<forall>boxes. getProp ?parsed (str ''boundingBoxes'') \<noteq> Some (JArr boxes))
      \<longrightarrow> out_boundingBoxes a = []"
    by blast+
  have "\<forall>v. getProp ?parsed (str ''probability'') \<noteq> Some (JNum v)"
    by simp
  with pv have pa: "out_probability a = 0"
    by blast
  have "\<forall>boxes. getProp ?parsed (str ''boundingBoxes'') \<noteq> Some (JArr boxes)"
    by simp
  with bv have "out_boundingBoxes a = []"
    by blast
  with pa a have "\<exists>a. handler (example_runtime example_sparse_output) example_env example_event
              = json 200 (AnalysisBody a)
            \<and> out_probability a = 0 \<and> out_boundingBoxes a = []"
    by blast
  then show ?thesis
    using p h8 by simp
qed

text \<open>
  A finding that \<open>String\<close> cannot print: the model text parses, the parsed value is
  not \<open>null\<close>, and the gateway answers 500.
\<close>

lemma handler_unprintable_finding:
  "handler (example_runtime example_unprintable_output) example_env example_event
     = json 500 (AnalyzeFailedBody TypeError_String)"
proof -
  let ?parsed = "JObj [(str ''finding'', JObj [(str ''toString'', JNum 1)]),
                    (str ''probability'', JNum (1 / 2)), (str ''severity'', JStr (str ''High''))]"
  note p = example_request_path
  have h8: "JSON_parse (example_runtime example_unprintable_output)
       (extractOutputText (payload \<lparr>ok = True, status = 200, statusText = str ''OK'',
          payload = JObj [(str ''output_text'', JStr example_unprintable_output)]\<rparr>)) = Some ?parsed"
    unfolding p(8)
    by (simp add: example_runtime_def example_parse_def example_unprintable_output_def
        example_sparse_output_def example_output_def example_request_def)
  have "handler (example_runtime example_unprintable_output) example_env example_event
      = analysisResponse (example_runtime example_unprintable_output) ?parsed"
    using p(1) p(2) p(3) p(4) p(5) p(6) p(7) h8 by (rule handler_parsed)
  also have "\<dots> = json 500 (AnalyzeFailedBody TypeError_String)"
    by (rule analysisResponse_unprintable) (simp_all add: findingText_def)
  finally show ?thesis .
qed

section \<open>Properties of the upload widget\<close>

lemma validateFile_rejects:
  assumes "\<not> isValidType c file \<or> real (file_size file) \<ge> MAX_FILE_SIZE_MB c * 1024 * 1024 + 1"
  shows "fst (validateFile c file st) = False"
    and "upload_error (snd (validateFile c file st)) \<noteq> None"
    and "onFileSelect_calls (snd (validateFile c file st)) = onFileSelect_calls st"
  using assms by (auto simp: validateFile_def)

lemma validateFile_accepts:
  assumes "isValidType c file" and "real (file_size file) \<le> MAX_FILE_SIZE_MB c * 1024 * 1024"
  shows "validateFile c file st = (True, st\<lparr>upload_error := None\<rparr>)"
  using assms by (simp add: validateFile_def)

lemma selectFirst_rejects:
  assumes "\<not> isValidType c file \<or> real (file_size file) \<ge> MAX_FILE_SIZE_MB c * 1024 * 1024 + 1"
  shows "onFileSelect_calls (selectFirst c (file # others) st) = onFileSelect_calls st"
    and "upload_error (selectFirst c (file # others) st) \<noteq> None"
  using validateFile_rejects [OF assms, of st]
  by (auto simp: selectFirst_def split: prod.splits bool.splits)

lemma selectFirst_accepts:
  assumes "isValidType c file" and "real (file_size file) \<le> MAX_FILE_SIZE_MB c * 1024 * 1024"
  shows "selectFirst c (file # others) st =
    st\<lparr>upload_error := None, onFileSelect_calls := onFileSelect_calls st @ [file]\<rparr>"
  using validateFile_accepts [OF assms, of st] by (simp add: selectFirst_def)

lemma handlers_disabled:
  "handleDrop c True files st = st\<lparr>isDragOver := False\<rparr>"
  "handleFileInput c True files st = st"
  by (simp_all add: handleDrop_def handleFileInput_def)

text \<open>
  C9. For every file whose (lower-cased) name ends in no supported extension, and for
  every file whose size exceeds the ceiling of \<open>MAX_FILE_SIZE_MB\<close> megabytes by at
  least one byte, \<open>validateFile\<close> fails and sets an error message, and neither handler
  calls \<open>onFileSelect\<close>, whether the widget is disabled or not. A file that passes
  both checks clears the error, and the handlers of an enabled widget forward it to
  \<open>onFileSelect\<close>.
\<close>

theorem validateFile_guards_onFileSelect:
  "((\<not> isValidType c file \<or> real (file_size file) \<ge> MAX_FILE_SIZE_MB c * 1024 * 1024 + 1) \<longrightarrow>
      fst (validateFile c file st) = False
      \<and> upload_error (snd (validateFile c file st)) \<noteq> None
      \<and> onFileSelect_calls (handleDrop c disabled (file # others) st) = onFileSelect_calls st
      \<and> onFileSelect_calls (handleFileInput c disabled (file # others) st) = onFileSelect_calls st
      \<and> (\<not> disabled \<longrightarrow>
           upload_error (handleDrop c disabled (file # others) st) \<noteq> None
           \<and> upload_error (handleFileInput c disabled (file # others) st) \<noteq> None))
   \<and> (isValidType c file \<and> real (file_size file) \<le> MAX_FILE_SIZE_MB c * 1024 * 1024 \<longrightarrow>
      validateFile c file st = (True, st\<lparr>upload_error := None\<rparr>)
      \<and> (\<not> disabled \<longrightarrow>
           handleDrop c disabled (file # others) st =
             st\<lparr>isDragOver := False, upload_error := None,
                onFileSelect_calls := onFileSelect_calls st @ [file]\<rparr>
           \<and> handleFileInput c disabled (file # others) st =
             st\<lparr>upload_error := None, onFileSelect_calls := onFileSelect_calls st @ [file]\<rparr>))"
proof (intro conjI impI)
  assume bad: "\<not> isValidType c file \<or> real (file_size file) \<ge> MAX_FILE_SIZE_MB c * 1024 * 1024 + 1"
  show "fst (validateFile c file st) = False"
    using bad by (rule validateFile_rejects(1))
  show "upload_error (snd (validateFile c file st)) \<noteq> None"
    using bad by (rule validateFile_rejects(2))
  show "onFileSelect_calls (handleDrop c disabled (file # others) st) = onFileSelect_calls st"
    using selectFirst_rejects(1) [OF bad, of others "st\<lparr>isDragOver := False\<rparr>"]
    by (simp add: handleDrop_def Let_def)
  show "onFileSelect_calls (handleFileInput c disabled (file # others) st) = onFileSelect_calls st"
    using selectFirst_rejects(1) [OF bad, of others st]
    by (simp add: handleFileInput_def)
  {
    assume en: "\<not> disabled"
    show "upload_error (handleDrop c disabled (file # others) st) \<noteq> None"
      using en selectFirst_rejects(2) [OF bad, of others "st\<lparr>isDragOver := False\<rparr>"]
      by (simp add: handleDrop_def Let_def)
    show "upload_error (handleFileInput c disabled (file # others) st) \<noteq> None"
      using en selectFirst_rejects(2) [OF bad, of others st]
      by (simp add: handleFileInput_def)
  }
next
  assume good: "isValidType c file \<and> real (file_size file) \<le> MAX_FILE_SIZE_MB c * 1024 * 1024"
  then have v: "isValidType c file" and sz: "real (file_size file) \<le> MAX_FILE_SIZE_MB c * 1024 * 1024"
    by simp_all
  show "validateFile c file st = (True, st\<lparr>upload_error := None\<rparr>)"
    using v sz by (rule validateFile_accepts)
  {
    assume en: "\<not> disabled"
    show "handleDrop c disabled (file # others) st =
             st\<lparr>isDragOver := False, upload_error := None,
                onFileSelect_calls := onFileSelect_calls st @ [file]\<rparr>"
      using en selectFirst_accepts [OF v sz, of others "st\<lparr>isDragOver := False\<rparr>"]
      by (simp add: handleDrop_def Let_def)
    show "handleFileInput c disabled (file # others) st =
             st\<lparr>upload_error := None, onFileSelect_calls := onFileSelect_calls st @ [file]\<rparr>"
      using en selectFirst_accepts [OF v sz, of others st]
      by (simp add: handleFileInput_def)
  }
qed


lemma example_png_valid: "isValidType example_constants example_png"
  by (simp add: isValidType_def example_constants_def example_png_def toLowerCase_def
      lower_char_def endsWith_def)

lemma example_pdf_invalid: "\<not> isValidType example_constants example_pdf"
  by (simp add: isValidType_def example_constants_def example_pdf_def toLowerCase_def
      lower_char_def endsWith_def)

theorem validateFile_guards_onFileSelect_witness:
  "\<not> isValidType example_constants example_pdf
   \<and> validateFile example_constants example_pdf example_state
       = (False, example_state\<lparr>upload_error := Some UnsupportedFileType\<rparr>)
   \<and> onFileSelect_calls (handleDrop example_constants False [example_pdf] example_state) = []
   \<and> upload_error (handleDrop example_constants False [example_pdf] example_state) \<noteq> None
   \<and> real (file_size example_oversized) \<ge> MAX_FILE_SIZE_MB example_constants * 1024 * 1024 + 1
   \<and> fst (validateFile example_constants example_oversized example_state) = False
   \<and> onFileSelect_calls (handleFileInput example_constants False [example_oversized] example_state) = []
   \<and> upload_error (handleFileInput example_constants False [example_oversized] example_state) \<noteq> None
   \<and> isValidType example_constants example_png
   \<and> real (file_size example_png) \<le> MAX_FILE_SIZE_MB example_constants * 1024 * 1024
   \<and> handleDrop example_constants False [example_png] example_state
       = \<lparr>isDragOver = False, upload_error = None, onFileSelect_calls = [example_png]\<rparr>"
proof -
  have big: "real (file_size example_oversized) \<ge> MAX_FILE_SIZE_MB example_constants * 1024 * 1024 + 1"
    by (simp add: example_oversized_def example_constants_def)
  have small: "real (file_size example_png) \<le> MAX_FILE_SIZE_MB example_constants * 1024 * 1024"
    by (simp add: example_png_def example_constants_def)
  have en: "\<not> False"
    by simp
  have pdf_direct: "validateFile example_constants example_pdf example_state
       = (False, example_state\<lparr>upload_error := Some UnsupportedFileType\<rparr>)"
    using example_pdf_invalid
    by (simp add: validateFile_def example_pdf_def example_constants_def)
  note pdf = validateFile_guards_onFileSelect [of example_constants example_pdf example_state False "[]"]
  note over = validateFile_guards_onFileSelect [of example_constants example_oversized example_state False "[]"]
  note png = validateFile_guards_onFileSelect [of example_constants example_png example_state False "[]"]
  have c: "onFileSelect_calls example_state = []" "isDragOver example_state = True"
    by (simp_all add: example_state_def)
  have a: "onFileSelect_calls (handleDrop example_constants False [example_pdf] example_state) = []"
    and b: "upload_error (handleDrop example_constants False [example_pdf] example_state) \<noteq> None"
    using pdf example_pdf_invalid c by simp_all
  have d: "fst (validateFile example_constants example_oversized example_state) = False"
    and e: "onFileSelect_calls (handleFileInput example_constants False [example_oversized] example_state) = []"
    and f: "upload_error (handleFileInput example_constants False [example_oversized] example_state) \<noteq> None"
    using over big c by simp_all
  have g: "handleDrop example_constants False [example_png] example_state
       = \<lparr>isDragOver = False, upload_error = None, onFileSelect_calls = [example_png]\<rparr>"
    using png example_png_valid small by (simp add: example_state_def)
  show ?thesis
    using example_pdf_invalid pdf_direct a b big d e f example_png_valid small g by simp
qed

end
